theory Spec2Isabelle
  imports Complex_Main "HOL-Library.Char_ord" "HOL-Library.List_Lexorder"
    "HOL-Library.Product_Lexorder" "HOL-Library.Log_Nat"
begin

section \<open>Data model\<close>

text \<open>
  The processor of \<^verbatim>\<open>data_processor.py\<close> works on pandas frames. A frame is modelled by
  its rows, one record per row, with one field per column the code reads.

  A date is a pandas Timestamp: an integer count since the epoch, ordered as the integers are.
  The examples below count days, so that 18283 is 2020-01-22.
\<close>

type_synonym date = int

text \<open>
  A cell of the \<^verbatim>\<open>Date\<close> column: the column label as melt leaves it, or what
  \<^verbatim>\<open>to_datetime\<close> makes of it (a Timestamp, or NaT when the label did not parse).
\<close>

datatype date_cell = Label string | Stamp date | NaT

text \<open>
  The wide input: \<open>columns\<close> is the header as read, and every row holds the cells of the
  four identification columns and, in \<open>counts\<close>, the cells of the columns after the fourth
  (\<^verbatim>\<open>df.columns[4:]\<close>), by position. The header says which identification columns
  the table has: the field of a column the header does not name is never read, since the
  melt refuses such a table before it reads a row. Column names are distinct, as
  \<^verbatim>\<open>read_csv\<close> makes them.
\<close>

record raw_row =
  province :: "string option"
  country :: string
  lat :: rat
  long :: rat
  counts :: "int list"

record raw_table =
  columns :: "string list"
  rows :: "raw_row list"

text \<open>A row of the melted (long) frame.\<close>

record long_row =
  m_province :: "string option"
  m_country :: string
  m_lat :: rat
  m_long :: rat
  m_date :: date_cell
  m_confirmed :: int

text \<open>A row after \<^verbatim>\<open>groupby(['Country/Region', 'Date'])['Confirmed'].sum().reset_index()\<close>.\<close>

record agg_row =
  g_country :: string
  g_date :: date
  g_confirmed :: int

text \<open>
  A row of \<^verbatim>\<open>country_data\<close>, the derived table. \<^verbatim>\<open>Seven_Day_Average\<close> is a float
  column; it is modelled by the exact rational mean, and by \<open>None\<close> where pandas gives NaN.
\<close>

record day_row =
  country_region :: string
  date :: date
  confirmed :: int
  daily_new :: int
  seven_day_average :: "rat option"

datatype error =
    ValueError string
  | KeyError "string list"
  | FetchError string
  | LoadException error

text \<open>
  A date argument of a query: a Timestamp (what \<^verbatim>\<open>main.py\<close> passes) or a string still to
  be parsed.
\<close>

datatype date_arg = Timestamp date | DateText string

text \<open>
  An entry of \<^verbatim>\<open>debug_info\<close>: the fixed text of the message and the values formatted
  into it.
\<close>

datatype log_msg =
    Note string
  | NoteNum string nat
  | NoteShape string nat nat
  | NoteCols string "string list"
  | NoteErr string error
  | NoteCountry string string
  | NoteFilter string date_arg date_arg

text \<open>The object state: \<^verbatim>\<open>self.data\<close>, \<^verbatim>\<open>self.country_data\<close>, \<^verbatim>\<open>self.debug_info\<close>.\<close>

record processor =
  data :: "raw_table option"
  country_data :: "day_row list option"
  debug_info :: "log_msg list"

definition init :: processor where
  "init = \<lparr>data = None, country_data = None, debug_info = []\<rparr>"

definition log_debug :: "log_msg \<Rightarrow> processor \<Rightarrow> processor" where
  "log_debug message s = s\<lparr>debug_info := debug_info s @ [message]\<rparr>"

section \<open>The pandas operations the pipeline calls\<close>

subsection \<open>The two number types of the columns\<close>

text \<open>
  \<^verbatim>\<open>Confirmed\<close> is an int64 column: its cells lie between \<open>-2^63\<close> and \<open>2^63 - 1\<close>, and
  an operation on int64 whose exact result is \<open>x\<close> leaves \<open>int64 x\<close>, the result wrapped
  around.
\<close>

definition int64 :: "int \<Rightarrow> int" where
  "int64 x = (x + 2 ^ 63) mod 2 ^ 64 - 2 ^ 63"

text \<open>
  \<^verbatim>\<open>Daily_New\<close> is a float64 column. All its values are whole numbers, so the model keeps
  them as integers and writes the rounding out: \<open>float64 x\<close> is the double nearest to the
  integer \<open>x\<close>, ties to the even mantissa, which is what the conversion of an int64 to
  float64 gives and what a float64 operation with exact result \<open>x\<close> gives. A double has 53
  bits of mantissa: an integer of more bits is rounded to a multiple of \<open>ulp\<close>. No
  integer within int64 arithmetic is large enough to overflow a double.
\<close>

definition float64 :: "int \<Rightarrow> int" where
  "float64 x =
     (let a = \<bar>x\<bar>;
          ulp = 2 ^ nat (bitlen a - 53);
          q = a div ulp;
          r = a mod ulp;
          m = (if 2 * r > ulp \<or> (2 * r = ulp \<and> odd q) then q + 1 else q)
      in sgn x * (m * ulp))"

subsection \<open>melt\<close>

definition count_at :: "raw_row \<Rightarrow> nat \<Rightarrow> int" where
  \<comment> \<open>the cell of the k-th column after the fourth; a cell the row does not have is a
      missing value, which the later sum skips\<close>
  "count_at r k = (if k < length (counts r) then counts r ! k else 0)"

definition melt_row :: "string \<Rightarrow> nat \<Rightarrow> raw_row \<Rightarrow> long_row" where
  "melt_row label k r =
     \<lparr>m_province = province r, m_country = country r, m_lat = lat r, m_long = long r,
      m_date = Label label, m_confirmed = count_at r k\<rparr>"

text \<open>
  \<^verbatim>\<open>df.melt(id_vars, value_vars, var_name='Date', value_name='Confirmed')\<close>: refuses a frame
  that already has a column named as the value column, raises KeyError with the labels that
  are not columns of the frame, and otherwise stacks the value columns, one after the other,
  each with all rows. A value column that is also an identification column is not stacked.
\<close>

definition melt :: "raw_table \<Rightarrow> string list \<Rightarrow> string list \<Rightarrow> error + long_row list" where
  "melt df id_vars value_vars =
     (if ''Confirmed'' \<in> set (columns df)
      then Inl (ValueError ''value_name (Confirmed) cannot match an element in the DataFrame columns.'')
      else
        let missing = filter (\<lambda>v. v \<notin> set (columns df)) (id_vars @ value_vars) in
        if missing \<noteq> [] then Inl (KeyError missing)
        else Inr (concat (map (\<lambda>(k, label). map (melt_row label k) (rows df))
                   (filter (\<lambda>(k, label). label \<notin> set id_vars) (enumerate 0 value_vars)))))"

subsection \<open>to\_datetime\<close>

type_synonym parser = "string \<Rightarrow> date option"

definition convert :: "parser \<Rightarrow> date_cell \<Rightarrow> date_cell" where
  \<comment> \<open>\<^verbatim>\<open>errors='coerce'\<close>: a string that does not parse becomes NaT; a cell that is
      already a Timestamp or NaT is returned as it is\<close>
  "convert p c =
     (case c of
        Label s \<Rightarrow> (case p s of Some d \<Rightarrow> Stamp d | None \<Rightarrow> NaT)
      | Stamp d \<Rightarrow> Stamp d
      | NaT \<Rightarrow> NaT)"

fun first_label :: "date_cell list \<Rightarrow> string option" where
  "first_label [] = None"
| "first_label (Label s # cs) = Some s"
| "first_label (c # cs) = first_label cs"

text \<open>
  \<^verbatim>\<open>pd.to_datetime(col, errors='coerce')\<close>: the format is guessed from the first string of
  the column and every string is parsed with it. The parser is a parameter: \<open>infer l\<^sub>0\<close> is
  the parser pandas uses when the first string is \<open>l\<^sub>0\<close>. A pandas that parses every
  string on its own is an \<open>infer\<close> that ignores \<open>l\<^sub>0\<close>.
\<close>

definition to_datetime :: "(string \<Rightarrow> parser) \<Rightarrow> date_cell list \<Rightarrow> date_cell list" where
  "to_datetime infer col =
     (case first_label col of
        None \<Rightarrow> col
      | Some l0 \<Rightarrow> map (convert (infer l0)) col)"

text \<open>
  \<^verbatim>\<open>pd.to_datetime(col, format='%m/%d/%y', errors='coerce')\<close>: every string is parsed
  with the given format, \<open>strptime\<close> being the parser of that format.
\<close>

definition to_datetime_format :: "parser \<Rightarrow> date_cell list \<Rightarrow> date_cell list" where
  "to_datetime_format strptime col = map (convert strptime) col"

definition isna_sum :: "date_cell list \<Rightarrow> nat" where
  "isna_sum col = length (filter (\<lambda>c. c = NaT) col)"

definition assign_date :: "long_row list \<Rightarrow> date_cell list \<Rightarrow> long_row list" where
  \<comment> \<open>\<^verbatim>\<open>melted_df['Date'] = col\<close>\<close>
  "assign_date df col = map (\<lambda>(r, c). r\<lparr>m_date := c\<rparr>) (zip df col)"

subsection \<open>groupby, sum\<close>

definition group_key :: "long_row \<Rightarrow> (string \<times> date) option" where
  \<comment> \<open>groupby drops the rows whose key holds a missing value (NaT)\<close>
  "group_key r = (case m_date r of Stamp d \<Rightarrow> Some (m_country r, d) | _ \<Rightarrow> None)"

definition unique :: "'a list \<Rightarrow> 'a list" where
  \<comment> \<open>the distinct values in order of first appearance\<close>
  "unique xs = rev (remdups (rev xs))"

text \<open>
  \<^verbatim>\<open>df.groupby(['Country/Region', 'Date'])['Confirmed'].sum().reset_index()\<close>: one row
  per distinct key, the keys in ascending order (groupby sorts them), each with the sum of
  \<^verbatim>\<open>Confirmed\<close> over the rows of that key. The sum is an int64 sum: it wraps around.
\<close>

definition groupby_sum :: "long_row list \<Rightarrow> agg_row list" where
  "groupby_sum df =
     map (\<lambda>(c, d). \<lparr>g_country = c, g_date = d,
                     g_confirmed =
                       int64 (sum_list (map m_confirmed (filter (\<lambda>r. group_key r = Some (c, d)) df)))\<rparr>)
         (sort (unique (List.map_filter group_key df)))"

subsection \<open>groupby, diff and rolling mean\<close>

text \<open>
  \<^verbatim>\<open>df.groupby('Country/Region')[col].diff()\<close>: every row gets its value minus the value
  of the previous row of the same country, in row order; the first row of a country gets NaN.
  \<open>prev\<close> holds the last value seen for each country. The result has to hold NaN, so
  pandas computes it in float64: the column minus the shifted column, both converted to
  float64 first, the difference rounded again.
\<close>

fun groupby_diff :: "(string \<rightharpoonup> int) \<Rightarrow> string list \<Rightarrow> int list \<Rightarrow> int option list" where
  "groupby_diff prev (k # ks) (v # vs) =
     (case prev k of None \<Rightarrow> None | Some p \<Rightarrow> Some (float64 (float64 v - float64 p)))
       # groupby_diff (prev(k \<mapsto> v)) ks vs"
| "groupby_diff prev _ _ = []"

definition fillna :: "int \<Rightarrow> int option \<Rightarrow> int" where
  "fillna z x = (case x of None \<Rightarrow> z | Some v \<Rightarrow> v)"

definition clip_lower :: "int \<Rightarrow> int \<Rightarrow> int" where
  "clip_lower lo v = (if v < lo then lo else v)"

definition mean :: "int list \<Rightarrow> rat" where
  "mean xs = of_int (sum_list xs) / of_nat (length xs)"

definition window_mean :: "nat \<Rightarrow> int list \<Rightarrow> rat option" where
  "window_mean min_periods win = (if length win < min_periods then None else Some (mean win))"

text \<open>
  \<^verbatim>\<open>df.groupby('Country/Region')[col].rolling(window, min_periods).mean()\<close>, put back in
  row order: every row gets the mean of its value and of the values of the preceding rows of
  the same country, at most \<open>window\<close> values in all. \<open>seen k\<close> holds the values already
  seen for country \<open>k\<close>, the latest first.
\<close>

fun groupby_rolling_mean ::
  "nat \<Rightarrow> nat \<Rightarrow> (string \<Rightarrow> int list) \<Rightarrow> string list \<Rightarrow> int list \<Rightarrow> rat option list" where
  "groupby_rolling_mean window min_periods seen (k # ks) (v # vs) =
     window_mean min_periods (take window (v # seen k))
       # groupby_rolling_mean window min_periods (seen(k := v # seen k)) ks vs"
| "groupby_rolling_mean window min_periods seen _ _ = []"

definition make_day_row :: "agg_row \<Rightarrow> int \<Rightarrow> rat option \<Rightarrow> day_row" where
  "make_day_row g dn av =
     \<lparr>country_region = g_country g, date = g_date g, confirmed = g_confirmed g,
      daily_new = dn, seven_day_average = av\<rparr>"

section \<open>The processor\<close>

subsection \<open>process\_data\<close>

definition id_vars :: "string list" where
  "id_vars = [''Province/State'', ''Country/Region'', ''Lat'', ''Long'']"

definition raise_process :: "error \<Rightarrow> processor \<Rightarrow> processor \<times> (error + day_row list)" where
  \<comment> \<open>the \<^verbatim>\<open>except\<close> clause of process\_data: log, then re-raise\<close>
  "raise_process e s = (log_debug (NoteErr ''Error in process_data'' e) s, Inl e)"

text \<open>
  Lines 73 to 86: the \<^verbatim>\<open>Date\<close> column is converted and written back; when the converted
  column holds NaT, the second conversion reads the column again, that is, the column the
  first conversion has just written.
\<close>

definition convert_dates ::
  "(string \<Rightarrow> parser) \<Rightarrow> parser \<Rightarrow> long_row list \<Rightarrow> processor \<Rightarrow> long_row list \<times> processor" where
  "convert_dates infer strptime melted_df s =
     (let s = log_debug (Note ''Converting dates to datetime objects'') s;
          melted_df = assign_date melted_df (to_datetime infer (map m_date melted_df));
          nat_count = isna_sum (map m_date melted_df);
          s = log_debug (NoteNum ''NaT values after date conversion'' nat_count) s
      in if nat_count > 0
         then
           let s = log_debug (Note ''Trying alternative date parsing'') s;
               melted_df = assign_date melted_df (to_datetime_format strptime (map m_date melted_df));
               nat_count = isna_sum (map m_date melted_df);
               s = log_debug (NoteNum ''NaT values after alternative date parsing'' nat_count) s
           in (melted_df, s)
         else (melted_df, s))"

text \<open>Lines 99 to 109: the two derived columns, and the rows of the derived table.\<close>

definition derive_metrics :: "agg_row list \<Rightarrow> day_row list" where
  "derive_metrics country_df =
     (let keys = map g_country country_df;
          daily_new = map (fillna 0) (groupby_diff Map.empty keys (map g_confirmed country_df));
          daily_new = map (clip_lower 0) daily_new;
          seven_day_average = groupby_rolling_mean 7 1 (\<lambda>k. []) keys daily_new
      in map (\<lambda>(g, dn, av). make_day_row g dn av)
           (zip country_df (zip daily_new seven_day_average)))"

text \<open>
  The frames of the model carry their columns in their type, so the three checks that the
  \<^verbatim>\<open>Date\<close> column is still there (lines 69, 95 and 112) never fire and have no branch here.
\<close>

definition process_data ::
  "(string \<Rightarrow> parser) \<Rightarrow> parser \<Rightarrow> processor \<Rightarrow> processor \<times> (error + day_row list)" where
  "process_data infer strptime s =
     (case data s of
        None \<Rightarrow>
          raise_process (ValueError ''No data to process. Please load data first.'')
            (log_debug (Note ''No data to process'') s)
      | Some df \<Rightarrow>
          let s = log_debug (Note ''Starting data processing'') s;
              s = log_debug (NoteCols ''Original data columns'' (take 10 (columns df))) s;
              date_columns = drop 4 (columns df);
              s = log_debug (NoteNum ''Identified date columns'' (length date_columns)) s;
              s = log_debug (Note ''Melting dataframe...'') s
          in (case melt df id_vars date_columns of
               Inl e \<Rightarrow> raise_process e s
             | Inr melted_df \<Rightarrow>
                 let s = log_debug (NoteShape ''Melted dataframe shape'' (length melted_df) 6) s;
                     s = log_debug (NoteCols ''Melted dataframe columns'' (id_vars @ [''Date'', ''Confirmed''])) s;
                     (melted_df, s) = convert_dates infer strptime melted_df s;
                     s = log_debug (Note ''Grouping by country and date'') s;
                     country_df = groupby_sum melted_df;
                     s = log_debug (NoteShape ''Country data shape after grouping'' (length country_df) 3) s;
                     s = log_debug (NoteCols ''Country data columns'' [''Country/Region'', ''Date'', ''Confirmed'']) s;
                     s = log_debug (Note ''Calculating daily new cases'') s;
                     s = log_debug (Note ''Calculating 7-day moving average'') s;
                     country_df = derive_metrics country_df;
                     s = s\<lparr>country_data := Some country_df\<rparr>;
                     s = log_debug (NoteShape ''Final country data shape'' (length country_df) 5) s;
                     s = log_debug (NoteCols ''Final country data columns''
                           [''Country/Region'', ''Date'', ''Confirmed'', ''Daily_New'', ''Seven_Day_Average'']) s;
                     s = (if country_df = [] then log_debug (Note ''Warning: country_data is empty'') s else s)
                 in (s, Inr country_df)))"

subsection \<open>load\_data\<close>

definition raise_load :: "error \<Rightarrow> processor \<Rightarrow> processor \<times> (error + day_row list)" where
  \<comment> \<open>the \<^verbatim>\<open>except\<close> clause of load\_data: log, then raise a new exception with the message\<close>
  "raise_load e s = (log_debug (NoteErr ''Error loading data'' e) s, Inl (LoadException e))"

text \<open>
  \<open>fetched\<close> is what \<^verbatim>\<open>pd.read_csv(url)\<close> gives: the table, or the exception it raises.
\<close>

definition load_data ::
  "(error + raw_table) \<Rightarrow> (string \<Rightarrow> parser) \<Rightarrow> parser \<Rightarrow> processor
     \<Rightarrow> processor \<times> (error + day_row list)" where
  "load_data fetched infer strptime s =
     (let s = log_debug (Note ''Starting to load data'') s in
      (case fetched of
        Inl e \<Rightarrow> raise_load e s
      | Inr df \<Rightarrow>
          let s = s\<lparr>data := Some df\<rparr>;
              s = log_debug (NoteShape ''Data loaded successfully. Shape''
                     (length (rows df)) (length (columns df))) s;
              s = log_debug (NoteCols ''Columns'' (take 10 (columns df))) s
          in (case process_data infer strptime s of
               (s, Inl e) \<Rightarrow> raise_load e s
             | (s, Inr processed_data) \<Rightarrow>
                 (log_debug (Note ''Data processed successfully'') s, Inr processed_data))))"

subsection \<open>get\_country\_list\<close>

definition country_column :: "raw_table \<Rightarrow> error + string list" where
  \<comment> \<open>\<^verbatim>\<open>self.data['Country/Region']\<close>: KeyError when the frame has no such column\<close>
  "country_column df =
     (if ''Country/Region'' \<in> set (columns df) then Inr (map country (rows df))
      else Inl (KeyError [''Country/Region'']))"

definition get_country_list :: "processor \<Rightarrow> processor \<times> string list" where
  "get_country_list s =
     (case data s of
        None \<Rightarrow> (log_debug (Note ''Data not loaded for get_country_list'') s, [])
      | Some df \<Rightarrow>
          (case country_column df of
             Inl e \<Rightarrow> (log_debug (NoteErr ''Error in get_country_list'' e) s, [])
           | Inr col \<Rightarrow>
               let countries = sort (unique col)
               in (log_debug (NoteNum ''Found countries'' (length countries)) s, countries)))"

subsection \<open>filter\_data\<close>

definition to_datetime_scalar :: "(string \<Rightarrow> parser) \<Rightarrow> date_arg \<Rightarrow> error + date" where
  \<comment> \<open>\<^verbatim>\<open>pd.to_datetime(x)\<close> on one value, errors raised: a string that does not parse raises\<close>
  "to_datetime_scalar infer x =
     (case x of
        Timestamp d \<Rightarrow> Inr d
      | DateText t \<Rightarrow> (case infer t t of Some d \<Rightarrow> Inr d | None \<Rightarrow> Inl (ValueError t)))"

definition raise_filter :: "error \<Rightarrow> processor \<Rightarrow> processor \<times> (error + day_row list)" where
  \<comment> \<open>the \<^verbatim>\<open>except\<close> clause of filter\_data: log, then re-raise\<close>
  "raise_filter e s = (log_debug (NoteErr ''Error in filter_data'' e) s, Inl e)"

text \<open>Lines 167 to 200, where \<^verbatim>\<open>self.country_data\<close> is the table \<open>cd\<close>.\<close>

definition filter_rows ::
  "(string \<Rightarrow> parser) \<Rightarrow> day_row list \<Rightarrow> processor \<Rightarrow> string \<Rightarrow> date_arg \<Rightarrow> date_arg
     \<Rightarrow> processor \<times> (error + day_row list)" where
  "filter_rows infer cd s c start_date end_date =
     (let s = log_debug (NoteShape ''country_data shape'' (length cd) 5) s;
          s = log_debug (NoteCols ''country_data columns''
                [''Country/Region'', ''Date'', ''Confirmed'', ''Daily_New'', ''Seven_Day_Average'']) s;
          filtered_data = filter (\<lambda>r. country_region r = c) cd;
          s = log_debug (NoteShape ''After country filter, shape'' (length filtered_data) 5) s
      in if filtered_data = []
         then (log_debug (NoteCountry ''No data found for country'' c) s, Inr filtered_data)
         else
           (case to_datetime_scalar infer start_date of
             Inl e \<Rightarrow> raise_filter e s
           | Inr a \<Rightarrow>
               (case to_datetime_scalar infer end_date of
                  Inl e \<Rightarrow> raise_filter e s
                | Inr b \<Rightarrow>
                    let filtered_data = filter (\<lambda>r. date r \<ge> a \<and> date r \<le> b) filtered_data;
                        s = log_debug (NoteShape ''After date filter, shape'' (length filtered_data) 5) s
                    in (s, Inr filtered_data))))"

definition filter_data ::
  "(string \<Rightarrow> parser) \<Rightarrow> parser \<Rightarrow> processor \<Rightarrow> string \<Rightarrow> date_arg \<Rightarrow> date_arg
     \<Rightarrow> processor \<times> (error + day_row list)" where
  "filter_data infer strptime s c start_date end_date =
     (let s = log_debug (NoteFilter c start_date end_date) s in
      (case country_data s of
        Some cd \<Rightarrow> filter_rows infer cd s c start_date end_date
      | None \<Rightarrow>
          let s = log_debug (Note ''country_data is None in filter_data'') s;
              s = log_debug (Note ''Attempting to process data'') s
          in (case data s of
                None \<Rightarrow>
                  raise_filter (ValueError ''No data loaded. Please load data first.'')
                    (log_debug (Note ''No data loaded to process'') s)
              | Some df \<Rightarrow>
                  (case process_data infer strptime s of
                     (s, Inl e) \<Rightarrow> raise_filter e s
                   | (s, Inr processed) \<Rightarrow>
                       (case country_data s of
                          None \<Rightarrow>
                            raise_filter (ValueError ''Data processing failed. country_data is still None.'')
                              (log_debug (Note ''country_data still None after processing'') s)
                        | Some cd \<Rightarrow> filter_rows infer cd s c start_date end_date)))))"

section \<open>Notions used in the statements\<close>

text \<open>The rows of one country, in the order of the table.\<close>

definition rows_of :: "string \<Rightarrow> day_row list \<Rightarrow> day_row list" where
  "rows_of c cd = filter (\<lambda>r. country_region r = c) cd"

text \<open>The grouping key of a row, before and after the derivation.\<close>

definition agg_key :: "agg_row \<Rightarrow> string \<times> date" where
  "agg_key g = (g_country g, g_date g)"

definition day_key :: "day_row \<Rightarrow> string \<times> date" where
  "day_key r = (country_region r, date r)"

text \<open>The derived table of a melted frame: what process\_data computes after the melt.\<close>

definition derived :: "(string \<Rightarrow> parser) \<Rightarrow> long_row list \<Rightarrow> day_row list" where
  "derived infer melted_df =
     derive_metrics (groupby_sum (assign_date melted_df (to_datetime infer (map m_date melted_df))))"

text \<open>
  The values a column holds on the rows of one country, and the two grouped operations as
  they act on such a list: the differences, starting from the value \<open>p\<close> seen before, and
  the window means, starting from the values \<open>h\<close> seen before (latest first).
\<close>

definition group_of :: "string \<Rightarrow> string list \<Rightarrow> 'a list \<Rightarrow> 'a list" where
  "group_of c ks vs = map snd (filter (\<lambda>(k, v). k = c) (zip ks vs))"

fun diffs :: "int option \<Rightarrow> int list \<Rightarrow> int option list" where
  "diffs p [] = []"
| "diffs p (v # vs) =
     (case p of None \<Rightarrow> None | Some q \<Rightarrow> Some (float64 (float64 v - float64 q))) # diffs (Some v) vs"

fun windows :: "nat \<Rightarrow> nat \<Rightarrow> int list \<Rightarrow> int list \<Rightarrow> rat option list" where
  "windows w mp h [] = []"
| "windows w mp h (v # vs) = window_mean mp (take w (v # h)) # windows w mp (v # h) vs"

section \<open>Example data\<close>

text \<open>
  A small table in the shape of the input: Australia reported by two subdivisions, one of
  them without a region name, and with a total that goes down on the second day; Belgium
  reported by one row. \<open>mdy_labels\<close> parses its three date labels.
\<close>

definition mdy_labels :: parser where
  "mdy_labels = map_of [(''1/22/20'', 18283), (''1/23/20'', 18284), (''1/24/20'', 18285)]"

definition ex_infer :: "string \<Rightarrow> parser" where
  "ex_infer l0 = mdy_labels"

definition ex_table :: raw_table where
  "ex_table =
     \<lparr>columns = [''Province/State'', ''Country/Region'', ''Lat'', ''Long'',
                 ''1/22/20'', ''1/23/20'', ''1/24/20''],
      rows = [\<lparr>province = Some ''New South Wales'', country = ''Australia'', lat = -34, long = 151,
                counts = [1, 3, 2]\<rparr>,
              \<lparr>province = None, country = ''Belgium'', lat = 50, long = 4, counts = [2, 2, 7]\<rparr>,
              \<lparr>province = None, country = ''Australia'', lat = -25, long = 133,
                counts = [4, 1, 5]\<rparr>]\<rparr>"

definition ex_loaded :: processor where
  "ex_loaded = \<lparr>data = Some ex_table, country_data = None, debug_info = []\<rparr>"

definition ex_derived :: "day_row list" where
  "ex_derived =
     [\<lparr>country_region = ''Australia'', date = 18283, confirmed = 5, daily_new = 0,
        seven_day_average = Some 0\<rparr>,
      \<lparr>country_region = ''Australia'', date = 18284, confirmed = 4, daily_new = 0,
        seven_day_average = Some 0\<rparr>,
      \<lparr>country_region = ''Australia'', date = 18285, confirmed = 7, daily_new = 3,
        seven_day_average = Some 1\<rparr>,
      \<lparr>country_region = ''Belgium'', date = 18283, confirmed = 2, daily_new = 0,
        seven_day_average = Some 0\<rparr>,
      \<lparr>country_region = ''Belgium'', date = 18284, confirmed = 2, daily_new = 0,
        seven_day_average = Some 0\<rparr>,
      \<lparr>country_region = ''Belgium'', date = 18285, confirmed = 7, daily_new = 5,
        seven_day_average = Some (5 / 3)\<rparr>]"




text \<open>
  Long rows as the aggregation receives them: two subdivisions of Australia on one date, one
  of them without a region name, a row of Belgium, and a row whose date did not parse.
\<close>

definition ex_long :: "long_row list" where
  "ex_long =
     [\<lparr>m_province = Some ''New South Wales'', m_country = ''Australia'', m_lat = -34, m_long = 151,
        m_date = Stamp 18283, m_confirmed = 1\<rparr>,
      \<lparr>m_province = None, m_country = ''Belgium'', m_lat = 50, m_long = 4,
        m_date = Stamp 18283, m_confirmed = 2\<rparr>,
      \<lparr>m_province = None, m_country = ''Australia'', m_lat = -25, m_long = 133,
        m_date = Stamp 18283, m_confirmed = 4\<rparr>,
      \<lparr>m_province = None, m_country = ''Australia'', m_lat = -25, m_long = 133,
        m_date = NaT, m_confirmed = 9\<rparr>]"

text \<open>The processor after the example table has been loaded and derived.\<close>

definition ex_derived_state :: processor where
  "ex_derived_state = \<lparr>data = Some ex_table, country_data = Some ex_derived, debug_info = []\<rparr>"

text \<open>
  A table with the four identification columns and no date column, and a table that has
  lost its \<^verbatim>\<open>Lat\<close> column.
\<close>

definition ex_no_dates :: raw_table where
  "ex_no_dates =
     \<lparr>columns = [''Province/State'', ''Country/Region'', ''Lat'', ''Long''],
      rows = [\<lparr>province = None, country = ''Belgium'', lat = 50, long = 4, counts = []\<rparr>]\<rparr>"

definition ex_no_lat :: raw_table where
  "ex_no_lat =
     \<lparr>columns = [''Province/State'', ''Country/Region'', ''Long'', ''1/22/20''],
      rows = [\<lparr>province = None, country = ''Belgium'', lat = 0, long = 4, counts = []\<rparr>]\<rparr>"

text \<open>
  A table whose first date label is written year first and whose second is written month
  first. \<open>mixed_infer\<close> is the guessed parser: with the first label of this table it reads
  year-first labels only, as pandas does once it has guessed the format from that label.
\<close>

definition iso_labels :: parser where
  "iso_labels = map_of [(''2020-01-22'', 18283)]"

definition mixed_infer :: "string \<Rightarrow> parser" where
  "mixed_infer l0 = (if l0 = ''2020-01-22'' then iso_labels else mdy_labels)"

definition ex_mixed :: processor where
  "ex_mixed =
     \<lparr>data = Some
        \<lparr>columns = [''Province/State'', ''Country/Region'', ''Lat'', ''Long'',
                    ''2020-01-22'', ''1/23/20''],
         rows = [\<lparr>province = None, country = ''Belgium'', lat = 50, long = 4, counts = [2, 3]\<rparr>]\<rparr>,
      country_data = None, debug_info = []\<rparr>"

text \<open>
  Counts at the limits of the two number types: a country whose total goes from \<open>2^53\<close>
  to \<open>2^53 + 1\<close>, and two subdivisions of one country with \<open>2^62\<close> each on one date.
\<close>

definition ex_big :: processor where
  "ex_big =
     \<lparr>data = Some
        \<lparr>columns = [''Province/State'', ''Country/Region'', ''Lat'', ''Long'', ''1/22/20'', ''1/23/20''],
         rows = [\<lparr>province = None, country = ''Chile'', lat = -35, long = -71,
                   counts = [9007199254740992, 9007199254740993]\<rparr>]\<rparr>,
      country_data = None, debug_info = []\<rparr>"

definition ex_big_derived :: "day_row list" where
  "ex_big_derived =
     [\<lparr>country_region = ''Chile'', date = 18283, confirmed = 9007199254740992, daily_new = 0,
        seven_day_average = Some 0\<rparr>,
      \<lparr>country_region = ''Chile'', date = 18284, confirmed = 9007199254740993, daily_new = 0,
        seven_day_average = Some 0\<rparr>]"

definition ex_long_big :: "long_row list" where
  "ex_long_big =
     [\<lparr>m_province = Some ''Biobio'', m_country = ''Chile'', m_lat = -37, m_long = -72,
        m_date = Stamp 18283, m_confirmed = 4611686018427387904\<rparr>,
      \<lparr>m_province = None, m_country = ''Chile'', m_lat = -35, m_long = -71,
        m_date = Stamp 18283, m_confirmed = 4611686018427387904\<rparr>]"

section \<open>Lemmas\<close>

subsection \<open>The two number types\<close>

lemma int64_exact: "- (2 ^ 63) \<le> x \<Longrightarrow> x < 2 ^ 63 \<Longrightarrow> int64 x = x"
  by (simp add: int64_def)

lemma float64_small:
  assumes "\<bar>x\<bar> < 2 ^ 53"
  shows "float64 x = x"
proof -
  have "bitlen \<bar>x\<bar> \<le> 53"
    using assms by (simp add: bitlen_le_iff_power)
  then have "nat (bitlen \<bar>x\<bar> - 53) = 0" by simp
  then show ?thesis
    by (simp add: float64_def Let_def mult_sgn_abs)
qed

lemma float64_two_power_53:
  assumes "\<bar>x\<bar> = 2 ^ 53"
  shows "float64 x = x"
proof -
  have a: "\<bar>x\<bar> = 9007199254740992" using assms by simp
  have b: "bitlen 9007199254740992 = 54"
    using bitlen_twopow_add_eq [of 0 53] by simp
  have "sgn x * \<bar>x\<bar> = x" by (rule mult_sgn_abs)
  then have "sgn x * 9007199254740992 = x" by (simp only: a)
  then show ?thesis
    by (simp add: float64_def Let_def a b)
qed

lemma float64_exact: "\<bar>x\<bar> \<le> 2 ^ 53 \<Longrightarrow> float64 x = x"
  using float64_small [of x] float64_two_power_53 [of x] by linarith

lemma float64_difference_exact:
  assumes "\<bar>v\<bar> \<le> 2 ^ 53" and "\<bar>p\<bar> \<le> 2 ^ 53" and "\<bar>v - p\<bar> \<le> 2 ^ 53"
  shows "float64 (float64 v - float64 p) = v - p"
  using assms by (simp add: float64_exact)

subsection \<open>Grouped columns\<close>

lemma group_of_Nil [simp]: "group_of c [] vs = []" "group_of c ks [] = []"
  by (simp_all add: group_of_def)

lemma group_of_Cons [simp]:
  "group_of c (k # ks) (v # vs) = (if k = c then v # group_of c ks vs else group_of c ks vs)"
  by (simp add: group_of_def)

lemma group_of_map: "group_of c ks (map f vs) = map f (group_of c ks vs)"
proof (induction ks arbitrary: vs)
  case Nil
  show ?case by simp
next
  case (Cons k ks)
  show ?case by (cases vs) (simp_all add: Cons.IH)
qed

lemma filter_as_group:
  "map f (filter (\<lambda>r. key r = c) xs) = group_of c (map key xs) (map f xs)"
  by (induction xs) simp_all

lemma length_groupby_diff:
  "length (groupby_diff prev ks vs) = min (length ks) (length vs)"
proof (induction ks arbitrary: prev vs)
  case Nil
  show ?case by simp
next
  case (Cons k ks)
  show ?case by (cases vs) (simp_all add: Cons.IH)
qed

lemma length_groupby_rolling_mean:
  "length (groupby_rolling_mean w mp seen ks vs) = min (length ks) (length vs)"
proof (induction ks arbitrary: seen vs)
  case Nil
  show ?case by simp
next
  case (Cons k ks)
  show ?case by (cases vs) (simp_all add: Cons.IH)
qed

lemma group_of_groupby_diff:
  "group_of c ks (groupby_diff prev ks vs) = diffs (prev c) (group_of c ks vs)"
proof (induction ks arbitrary: prev vs)
  case Nil
  show ?case by simp
next
  case (Cons k ks)
  show ?case by (cases vs) (simp_all add: Cons.IH)
qed


lemma length_diffs [simp]: "length (diffs p g) = length g"
  by (induction g arbitrary: p) simp_all

lemma length_windows [simp]: "length (windows w mp h g) = length g"
  by (induction g arbitrary: h) simp_all

lemma diffs_nth:
  "i < length g \<Longrightarrow>
   diffs p g ! i =
     (if i = 0 then (case p of None \<Rightarrow> None | Some q \<Rightarrow> Some (float64 (float64 (g ! 0) - float64 q)))
      else Some (float64 (float64 (g ! i) - float64 (g ! (i - 1)))))"
proof (induction g arbitrary: p i)
  case Nil
  then show ?case by simp
next
  case (Cons v vs)
  show ?case
  proof (cases i)
    case 0
    then show ?thesis by (simp split: option.split)
  next
    case (Suc j)
    with Cons.prems have "j < length vs" by simp
    from Cons.IH [OF this, of "Some v"] Suc show ?thesis
      by (cases j) simp_all
  qed
qed





subsection \<open>derive\_metrics, column by column\<close>

lemma map_zip3:
  assumes "length bs = length as" and "length cs = length as"
  shows "map (\<lambda>(a, b, c). f a b c) (zip as (zip bs cs)) = map (\<lambda>i. f (as ! i) (bs ! i) (cs ! i)) [0..<length as]"
  using assms by (intro nth_equalityI) simp_all

lemma derive_metrics_nth:
  "derive_metrics g =
     map (\<lambda>i. make_day_row (g ! i)
            (clip_lower 0 (fillna 0 (groupby_diff Map.empty (map g_country g) (map g_confirmed g) ! i)))
            (groupby_rolling_mean 7 1 (\<lambda>k. []) (map g_country g)
               (map (clip_lower 0) (map (fillna 0) (groupby_diff Map.empty (map g_country g) (map g_confirmed g)))) ! i))
       [0..<length g]"
  unfolding derive_metrics_def Let_def
  by (subst map_zip3) (simp_all add: length_groupby_diff length_groupby_rolling_mean)

lemma length_derive_metrics [simp]: "length (derive_metrics g) = length g"
  by (simp add: derive_metrics_nth)

lemma country_region_derive_metrics: "map country_region (derive_metrics g) = map g_country g"
  by (rule nth_equalityI) (simp_all add: derive_metrics_nth make_day_row_def)

lemma confirmed_derive_metrics: "map confirmed (derive_metrics g) = map g_confirmed g"
  by (rule nth_equalityI) (simp_all add: derive_metrics_nth make_day_row_def)

lemma daily_new_derive_metrics:
  "map daily_new (derive_metrics g) =
     map (clip_lower 0) (map (fillna 0) (groupby_diff Map.empty (map g_country g) (map g_confirmed g)))"
  by (rule nth_equalityI) (simp_all add: derive_metrics_nth make_day_row_def length_groupby_diff)


text \<open>The columns of one country, in table order.\<close>

lemma rows_of_column:
  "map f (rows_of c (derive_metrics g)) = group_of c (map g_country g) (map f (derive_metrics g))"
  unfolding rows_of_def by (simp add: filter_as_group country_region_derive_metrics)

lemma daily_new_rows_of:
  "map daily_new (rows_of c (derive_metrics g)) =
     map (clip_lower 0) (map (fillna 0) (diffs None (map confirmed (rows_of c (derive_metrics g)))))"
  by (simp add: rows_of_column daily_new_derive_metrics confirmed_derive_metrics
      group_of_map group_of_groupby_diff)


lemma daily_new_nth:
  assumes "i < length (rows_of c (derive_metrics g))"
  shows "daily_new (rows_of c (derive_metrics g) ! i) =
          (if i = 0 then 0
           else max 0 (float64 (float64 (confirmed (rows_of c (derive_metrics g) ! i))
                        - float64 (confirmed (rows_of c (derive_metrics g) ! (i - 1))))))"
proof -
  let ?rs = "rows_of c (derive_metrics g)"
  have "daily_new (?rs ! i) = map daily_new ?rs ! i" using assms by simp
  also have "\<dots> = clip_lower 0 (fillna 0 (diffs None (map confirmed ?rs) ! i))"
    using assms by (simp add: daily_new_rows_of)
  also have "diffs None (map confirmed ?rs) ! i =
      (if i = 0 then None
       else Some (float64 (float64 (confirmed (?rs ! i)) - float64 (confirmed (?rs ! (i - 1))))))"
    using assms by (simp add: diffs_nth)
  finally show ?thesis by (simp add: fillna_def clip_lower_def max_def)
qed


subsection \<open>The date conversion\<close>

lemma first_label_None: "first_label col = None \<Longrightarrow> Label l \<notin> set col"
  by (induction col rule: first_label.induct) simp_all

lemma convert_no_label: "convert p c \<noteq> Label l"
  by (simp add: convert_def split: date_cell.split option.split)

lemma to_datetime_no_label: "Label l \<notin> set (to_datetime infer col)"
  by (auto simp: to_datetime_def convert_no_label [THEN not_sym] dest: first_label_None
      split: option.split)

lemma convert_converted: "(\<And>l. c \<noteq> Label l) \<Longrightarrow> convert p c = c"
  by (cases c) (auto simp: convert_def)

lemma to_datetime_format_converted:
  "(\<And>l. Label l \<notin> set col) \<Longrightarrow> to_datetime_format p col = col"
  unfolding to_datetime_format_def
  by (rule map_idI) (metis convert_converted)

lemma length_to_datetime [simp]: "length (to_datetime infer col) = length col"
  by (simp add: to_datetime_def split: option.split)

lemma m_date_assign_date:
  "length col = length df \<Longrightarrow> map m_date (assign_date df col) = col"
  unfolding assign_date_def by (rule nth_equalityI) simp_all

lemma assign_date_twice:
  "length col = length df \<Longrightarrow> length col' = length df \<Longrightarrow>
   assign_date (assign_date df col) col' = assign_date df col'"
  unfolding assign_date_def by (rule nth_equalityI) simp_all

text \<open>
  The second conversion changes nothing: it reads the column the first one wrote, where no
  string is left to parse.
\<close>

lemma fst_convert_dates:
  "fst (convert_dates infer strptime df s) = assign_date df (to_datetime infer (map m_date df))"
proof -
  let ?col = "to_datetime infer (map m_date df)"
  have col: "map m_date (assign_date df ?col) = ?col"
    by (simp add: m_date_assign_date)
  have "to_datetime_format strptime ?col = ?col"
    by (rule to_datetime_format_converted) (rule to_datetime_no_label)
  then show ?thesis
    by (simp add: convert_dates_def Let_def col assign_date_twice)
qed

lemma snd_convert_dates:
  "data (snd (convert_dates infer strptime df s)) = data s"
  "country_data (snd (convert_dates infer strptime df s)) = country_data s"
  by (simp_all add: convert_dates_def Let_def log_debug_def)

subsection \<open>process\_data: what it returns and what it stores\<close>

lemma snd_process_data:
  "snd (process_data infer strptime s) =
     (case data s of
        None \<Rightarrow> Inl (ValueError ''No data to process. Please load data first.'')
      | Some df \<Rightarrow>
          (case melt df id_vars (drop 4 (columns df)) of
             Inl e \<Rightarrow> Inl e
           | Inr melted_df \<Rightarrow> Inr (derived infer melted_df)))"
  by (simp add: process_data_def raise_process_def Let_def split_beta fst_convert_dates derived_def
      split: option.split sum.split)

lemma country_data_process_data:
  "country_data (fst (process_data infer strptime s)) =
     (case snd (process_data infer strptime s) of Inl e \<Rightarrow> country_data s | Inr cd \<Rightarrow> Some cd)"
  by (simp add: process_data_def raise_process_def Let_def split_beta log_debug_def snd_convert_dates
      fst_convert_dates split: option.split sum.split)

lemma process_data_Inr:
  assumes "snd (process_data infer strptime s) = Inr cd"
  obtains df melted_df where "data s = Some df"
    and "melt df id_vars (drop 4 (columns df)) = Inr melted_df"
    and "cd = derived infer melted_df"
  using assms unfolding snd_process_data by (auto split: option.splits sum.splits)

subsection \<open>The order of the grouped rows\<close>

lemma distinct_unique [simp]: "distinct (unique xs)"
  by (simp add: unique_def)

lemma set_unique [simp]: "set (unique xs) = set xs"
  by (simp add: unique_def)

lemma agg_key_groupby_sum:
  "map agg_key (groupby_sum df) = sort (unique (List.map_filter group_key df))"
  unfolding groupby_sum_def agg_key_def by (simp add: comp_def split_beta)

lemma groupby_sum_sorted: "sorted_wrt (<) (map agg_key (groupby_sum df))"
  by (simp add: agg_key_groupby_sum strict_sorted_iff)

lemma day_key_derive_metrics: "map day_key (derive_metrics g) = map agg_key g"
  by (rule nth_equalityI) (simp_all add: derive_metrics_nth make_day_row_def day_key_def agg_key_def)

lemma derived_sorted: "sorted_wrt (<) (map day_key (derived infer melted_df))"
  by (simp add: derived_def day_key_derive_metrics groupby_sum_sorted)

lemma one_country_sorted:
  fixes k :: "'a \<Rightarrow> 'k::linorder" and d :: "'a \<Rightarrow> 'd::linorder"
  assumes "sorted_wrt (<) (map (\<lambda>r. (k r, d r)) xs)"
  shows "sorted_wrt (<) (map d (filter (\<lambda>r. k r = c) xs))"
proof -
  from assms have "sorted_wrt (\<lambda>a b. (k a, d a) < (k b, d b)) xs"
    by (simp add: sorted_wrt_map)
  then have "sorted_wrt (\<lambda>a b. (k a, d a) < (k b, d b)) (filter (\<lambda>r. k r = c) xs)"
    by (rule sorted_wrt_filter)
  then have "sorted_wrt (\<lambda>a b. d a < d b) (filter (\<lambda>r. k r = c) xs)"
    by (rule sorted_wrt_mono_rel [rotated]) auto
  then show ?thesis by (simp add: sorted_wrt_map)
qed

lemma rows_of_sorted:
  "sorted_wrt (<) (map day_key cd) \<Longrightarrow> sorted_wrt (<) (map date (rows_of c cd))"
  unfolding rows_of_def day_key_def by (rule one_country_sorted)

subsection \<open>The example, run\<close>

lemma ex_run: "snd (process_data ex_infer mdy_labels ex_loaded) = Inr ex_derived"
  by code_simp

lemma ex_rows_of_Australia:
  "rows_of ''Australia'' ex_derived =
     [\<lparr>country_region = ''Australia'', date = 18283, confirmed = 5, daily_new = 0,
        seven_day_average = Some 0\<rparr>,
      \<lparr>country_region = ''Australia'', date = 18284, confirmed = 4, daily_new = 0,
        seven_day_average = Some 0\<rparr>,
      \<lparr>country_region = ''Australia'', date = 18285, confirmed = 7, daily_new = 3,
        seven_day_average = Some 1\<rparr>]"
  by (simp add: rows_of_def ex_derived_def)

subsection \<open>The nine-day example, run\<close>




subsection \<open>The aggregation\<close>

lemma group_key_Some:
  "group_key r = Some (c, d) \<longleftrightarrow> m_country r = c \<and> m_date r = Stamp d"
  by (auto simp: group_key_def split: date_cell.splits)

lemma set_map_filter: "set (List.map_filter f xs) = {y. \<exists>x \<in> set xs. f x = Some y}"
  by (induction xs) (auto split: option.splits)

lemma groupby_sum_keys:
  "set (map agg_key (groupby_sum df)) =
     {(c, d). \<exists>r \<in> set df. m_country r = c \<and> m_date r = Stamp d}"
  by (auto simp: agg_key_groupby_sum set_map_filter group_key_Some)

lemma groupby_sum_confirmed:
  assumes "g \<in> set (groupby_sum df)"
  shows "g_confirmed g =
     int64 (sum_list (map m_confirmed
       (filter (\<lambda>r. m_country r = g_country g \<and> m_date r = Stamp (g_date g)) df)))"
  using assms unfolding groupby_sum_def by (auto simp: group_key_Some)

lemma ex_long_grouped:
  "groupby_sum ex_long =
     [\<lparr>g_country = ''Australia'', g_date = 18283, g_confirmed = 5\<rparr>,
      \<lparr>g_country = ''Belgium'', g_date = 18283, g_confirmed = 2\<rparr>]"
  by code_simp

subsection \<open>filter\_data: what it returns\<close>

lemma snd_filter_rows:
  "snd (filter_rows infer cd s c start_date end_date) =
     (if filter (\<lambda>r. country_region r = c) cd = [] then Inr []
      else
        (case to_datetime_scalar infer start_date of
           Inl e \<Rightarrow> Inl e
         | Inr a \<Rightarrow>
             (case to_datetime_scalar infer end_date of
                Inl e \<Rightarrow> Inl e
              | Inr b \<Rightarrow>
                  Inr (filter (\<lambda>r. date r \<ge> a \<and> date r \<le> b)
                         (filter (\<lambda>r. country_region r = c) cd)))))"
  by (simp add: filter_rows_def raise_filter_def Let_def split: sum.split)

lemma log_debug_fields [simp]:
  "data (log_debug m s) = data s"
  "country_data (log_debug m s) = country_data s"
  by (simp_all add: log_debug_def)

lemma snd_process_data_log_debug [simp]:
  "snd (process_data infer strptime (log_debug m s)) = snd (process_data infer strptime s)"
  by (simp add: snd_process_data)

lemma snd_filter_data:
  "snd (filter_data infer strptime s c start_date end_date) =
     (case country_data s of
        Some cd \<Rightarrow> snd (filter_rows infer cd s c start_date end_date)
      | None \<Rightarrow>
          (case data s of
             None \<Rightarrow> Inl (ValueError ''No data loaded. Please load data first.'')
           | Some df \<Rightarrow>
               (case snd (process_data infer strptime s) of
                  Inl e \<Rightarrow> Inl e
                | Inr cd \<Rightarrow> snd (filter_rows infer cd s c start_date end_date))))"
proof (cases "country_data s")
  case (Some cd)
  then show ?thesis
    by (simp add: filter_data_def Let_def snd_filter_rows)
next
  case None
  show ?thesis
  proof (cases "data s")
    case dNone: None
    with None show ?thesis
      by (simp add: filter_data_def Let_def raise_filter_def)
  next
    case (Some df)
    let ?s = "log_debug (Note ''Attempting to process data'')
               (log_debug (Note ''country_data is None in filter_data'')
                 (log_debug (NoteFilter c start_date end_date) s))"
    obtain s1 r where run: "process_data infer strptime ?s = (s1, r)"
      by (cases "process_data infer strptime ?s")
    have r: "r = snd (process_data infer strptime s)"
      using run [THEN arg_cong [where f = snd]] by simp
    have cd1: "country_data s1 = (case r of Inl e \<Rightarrow> None | Inr cd \<Rightarrow> Some cd)"
      using country_data_process_data [of infer strptime ?s] run None by (cases r) simp_all
    show ?thesis
      using None Some run cd1 unfolding r [symmetric]
      by (cases r) (simp_all add: filter_data_def Let_def raise_filter_def snd_filter_rows)
  qed
qed

lemma filter_data_derived:
  assumes "country_data s = Some cd"
  shows "snd (filter_data infer strptime s c (Timestamp a) (Timestamp b)) =
           Inr (filter (\<lambda>r. country_region r = c \<and> a \<le> date r \<and> date r \<le> b) cd)"
proof -
  have "filter (\<lambda>r. date r \<ge> a \<and> date r \<le> b) (filter (\<lambda>r. country_region r = c) cd) =
        filter (\<lambda>r. country_region r = c \<and> a \<le> date r \<and> date r \<le> b) cd"
    by (simp add: conj_commute conj_left_commute)
  moreover have "filter (\<lambda>r. country_region r = c) cd = [] \<Longrightarrow>
      filter (\<lambda>r. country_region r = c \<and> a \<le> date r \<and> date r \<le> b) cd = []"
    by (simp add: filter_empty_conv)
  ultimately show ?thesis
    using assms by (simp add: snd_filter_data snd_filter_rows to_datetime_scalar_def)
qed

subsection \<open>load\_data: what it returns and what it stores\<close>

lemma melt_missing_id:
  assumes "v \<in> set ids" and "v \<notin> set (columns df)"
  shows "\<exists>e. melt df ids value_vars = Inl e"
proof -
  from assms have "filter (\<lambda>v. v \<notin> set (columns df)) (ids @ value_vars) \<noteq> []"
    by (auto simp: filter_empty_conv)
  then show ?thesis by (simp add: melt_def Let_def)
qed

lemma snd_load_data:
  "snd (load_data (Inr df) infer strptime s) =
     (case melt df id_vars (drop 4 (columns df)) of
        Inl e \<Rightarrow> Inl (LoadException e)
      | Inr melted_df \<Rightarrow> Inr (derived infer melted_df))"
proof -
  let ?s = "log_debug (NoteCols ''Columns'' (take 10 (columns df)))
     (log_debug (NoteShape ''Data loaded successfully. Shape'' (length (rows df)) (length (columns df)))
       (log_debug (Note ''Starting to load data'') s\<lparr>data := Some df\<rparr>))"
  obtain s1 r where run: "process_data infer strptime ?s = (s1, r)"
    by (cases "process_data infer strptime ?s")
  have "r = snd (process_data infer strptime ?s)" using run by simp
  then have r: "r = (case melt df id_vars (drop 4 (columns df)) of
        Inl e \<Rightarrow> Inl e | Inr melted_df \<Rightarrow> Inr (derived infer melted_df))"
    by (simp add: snd_process_data)
  show ?thesis
    using run unfolding r
    by (simp add: load_data_def Let_def raise_load_def split: sum.split)
qed

lemma country_data_load_data:
  "country_data (fst (load_data (Inr df) infer strptime s)) =
     (case melt df id_vars (drop 4 (columns df)) of
        Inl e \<Rightarrow> country_data s
      | Inr melted_df \<Rightarrow> Some (derived infer melted_df))"
proof -
  let ?s = "log_debug (NoteCols ''Columns'' (take 10 (columns df)))
     (log_debug (NoteShape ''Data loaded successfully. Shape'' (length (rows df)) (length (columns df)))
       (log_debug (Note ''Starting to load data'') s\<lparr>data := Some df\<rparr>))"
  obtain s1 r where run: "process_data infer strptime ?s = (s1, r)"
    by (cases "process_data infer strptime ?s")
  have "r = snd (process_data infer strptime ?s)" using run by simp
  then have r: "r = (case melt df id_vars (drop 4 (columns df)) of
        Inl e \<Rightarrow> Inl e | Inr melted_df \<Rightarrow> Inr (derived infer melted_df))"
    by (simp add: snd_process_data)
  have "country_data s1 = (case r of Inl e \<Rightarrow> country_data ?s | Inr cd \<Rightarrow> Some cd)"
    using country_data_process_data [of infer strptime ?s] run by simp
  then have cd1: "country_data s1 = (case r of Inl e \<Rightarrow> country_data s | Inr cd \<Rightarrow> Some cd)"
    by (cases r) (simp_all add: log_debug_def)
  show ?thesis
    using run cd1 unfolding r
    by (simp add: load_data_def Let_def raise_load_def split: sum.split)
qed

lemma only_id_columns:
  assumes "set id_vars \<subseteq> set cols" and "drop 4 cols = []"
  shows "set cols = set id_vars"
proof -
  have "card (set cols) \<le> length cols" by (rule card_length)
  also have "length cols \<le> 4" using assms(2) by simp
  also have "4 = card (set id_vars)" by (simp add: id_vars_def)
  finally have "card (set cols) \<le> card (set id_vars)" .
  with assms(1) show ?thesis
    by (intro card_seteq [symmetric]) simp_all
qed

lemma derived_Nil: "derived infer [] = []"
  by (simp add: derived_def to_datetime_def assign_date_def groupby_sum_def unique_def
      derive_metrics_def)

lemma melt_no_value_vars:
  assumes "set id_vars \<subseteq> set (columns df)" and "drop 4 (columns df) = []"
  shows "melt df id_vars (drop 4 (columns df)) = Inr []"
proof -
  have "set (columns df) = set id_vars" using assms by (rule only_id_columns)
  then have "''Confirmed'' \<notin> set (columns df)" by (simp add: id_vars_def)
  moreover have "filter (\<lambda>v. v \<notin> set (columns df)) id_vars = []"
    using assms(1) by (auto simp: filter_empty_conv)
  ultimately show ?thesis using assms(2) by (simp add: melt_def)
qed

subsection \<open>get\_country\_list\<close>

lemma snd_get_country_list:
  "snd (get_country_list s) =
     (case data s of
        None \<Rightarrow> []
      | Some df \<Rightarrow>
          if ''Country/Region'' \<in> set (columns df) then sort (unique (map country (rows df)))
          else [])"
  by (simp add: get_country_list_def country_column_def Let_def split: option.split)

section \<open>The aggregation and the order of its rows\<close>

text \<open>
  Claim C3, as the code has it. The aggregation step groups the long rows by country and
  date: the keys of its output are pairwise distinct, they are exactly the (country, date)
  pairs that occur in the input with a valid date, and every output row holds the int64 sum
  of \<open>Confirmed\<close> over all input rows of its key, whatever their region, a missing one
  included. That is the exact sum whenever the exact sum lies in the int64 range.
\<close>

theorem groupby_sum_one_row_per_key:
  "distinct (map agg_key (groupby_sum df)) \<and>
   set (map agg_key (groupby_sum df)) =
     {(c, d). \<exists>r \<in> set df. m_country r = c \<and> m_date r = Stamp d} \<and>
   (\<forall>g \<in> set (groupby_sum df).
      g_confirmed g =
        int64 (sum_list (map m_confirmed
          (filter (\<lambda>r. m_country r = g_country g \<and> m_date r = Stamp (g_date g)) df))) \<and>
      (- (2 ^ 63) \<le> sum_list (map m_confirmed
          (filter (\<lambda>r. m_country r = g_country g \<and> m_date r = Stamp (g_date g)) df)) \<and>
       sum_list (map m_confirmed
          (filter (\<lambda>r. m_country r = g_country g \<and> m_date r = Stamp (g_date g)) df)) < 2 ^ 63 \<longrightarrow>
       g_confirmed g =
         sum_list (map m_confirmed
           (filter (\<lambda>r. m_country r = g_country g \<and> m_date r = Stamp (g_date g)) df))))"
proof (intro conjI ballI impI)
  show "distinct (map agg_key (groupby_sum df))"
    by (simp add: agg_key_groupby_sum)
  show "set (map agg_key (groupby_sum df)) =
     {(c, d). \<exists>r \<in> set df. m_country r = c \<and> m_date r = Stamp d}"
    by (rule groupby_sum_keys)
next
  fix g assume "g \<in> set (groupby_sum df)"
  then show "g_confirmed g =
     int64 (sum_list (map m_confirmed
       (filter (\<lambda>r. m_country r = g_country g \<and> m_date r = Stamp (g_date g)) df)))"
    by (rule groupby_sum_confirmed)
next
  fix g :: agg_row
  let ?sum = "sum_list (map m_confirmed
     (filter (\<lambda>r. m_country r = g_country g \<and> m_date r = Stamp (g_date g)) df))"
  assume "g \<in> set (groupby_sum df)" and "- (2 ^ 63) \<le> ?sum \<and> ?sum < 2 ^ 63"
  then show "g_confirmed g = ?sum"
    by (simp add: groupby_sum_confirmed int64_exact)
qed

text \<open>
  On the example, the two rows of Australia, one without a region name, are summed to 5, and
  the row without a date gives no output row.
\<close>

theorem groupby_sum_one_row_per_key_witness:
  "\<lparr>g_country = ''Australia'', g_date = 18283, g_confirmed = 5\<rparr> \<in> set (groupby_sum ex_long) \<and>
   - (2 ^ 63) \<le> sum_list (map m_confirmed
      (filter (\<lambda>r. m_country r = ''Australia'' \<and> m_date r = Stamp 18283) ex_long)) \<and>
   sum_list (map m_confirmed
      (filter (\<lambda>r. m_country r = ''Australia'' \<and> m_date r = Stamp 18283) ex_long)) < 2 ^ 63 \<and>
   (5::int) = sum_list (map m_confirmed
      (filter (\<lambda>r. m_country r = ''Australia'' \<and> m_date r = Stamp 18283) ex_long)) \<and>
   distinct (map agg_key (groupby_sum ex_long)) \<and>
   map agg_key (groupby_sum ex_long) = [(''Australia'', 18283), (''Belgium'', 18283)]"
proof -
  let ?g = "\<lparr>g_country = ''Australia'', g_date = 18283, g_confirmed = 5\<rparr>"
  let ?sum = "sum_list (map m_confirmed
      (filter (\<lambda>r. m_country r = ''Australia'' \<and> m_date r = Stamp 18283) ex_long))"
  have mem: "?g \<in> set (groupby_sum ex_long)"
    by (simp add: ex_long_grouped)
  have range: "- (2 ^ 63) \<le> ?sum" "?sum < 2 ^ 63"
    by (simp_all add: ex_long_def)
  from groupby_sum_one_row_per_key [of ex_long]
  have all: "\<forall>g \<in> set (groupby_sum ex_long).
      (- (2 ^ 63) \<le> sum_list (map m_confirmed
          (filter (\<lambda>r. m_country r = g_country g \<and> m_date r = Stamp (g_date g)) ex_long)) \<and>
       sum_list (map m_confirmed
          (filter (\<lambda>r. m_country r = g_country g \<and> m_date r = Stamp (g_date g)) ex_long)) < 2 ^ 63 \<longrightarrow>
       g_confirmed g =
         sum_list (map m_confirmed
           (filter (\<lambda>r. m_country r = g_country g \<and> m_date r = Stamp (g_date g)) ex_long)))"
    and dist: "distinct (map agg_key (groupby_sum ex_long))"
    by blast+
  from bspec [OF all mem] range
  have "(5::int) = ?sum"
    by simp
  moreover have "map agg_key (groupby_sum ex_long) = [(''Australia'', 18283), (''Belgium'', 18283)]"
    by (simp add: ex_long_grouped agg_key_def)
  ultimately show ?thesis using mem dist range by (intro conjI)
qed

text \<open>
  Against claim C3 as stated: two subdivisions with \<open>2^62\<close> each have the sum \<open>2^63\<close>,
  and the output row holds \<open>-2^63\<close>.
\<close>

theorem groupby_sum_wraps_counterexample:
  "groupby_sum ex_long_big =
     [\<lparr>g_country = ''Chile'', g_date = 18283, g_confirmed = - 9223372036854775808\<rparr>] \<and>
   sum_list (map m_confirmed
      (filter (\<lambda>r. m_country r = ''Chile'' \<and> m_date r = Stamp 18283) ex_long_big)) =
     9223372036854775808"
  by code_simp

text \<open>
  Claim C8. When process\_data succeeds, the table it returns is the derivation applied to
  the output of the grouping step on the melted and date-converted frame, and that output is
  in strictly ascending order of (country, date): the rows of every country stand together
  in it, in strictly ascending date order. The grouping sorts; the derivation never sees
  another order.
\<close>

theorem derivation_on_sorted_rows:
  assumes "snd (process_data infer strptime s) = Inr cd"
  shows "\<exists>df melted_df.
           data s = Some df \<and> melt df id_vars (drop 4 (columns df)) = Inr melted_df \<and>
           cd = derive_metrics (groupby_sum (fst (convert_dates infer strptime melted_df s))) \<and>
           sorted_wrt (<)
             (map agg_key (groupby_sum (fst (convert_dates infer strptime melted_df s)))) \<and>
           (\<forall>c. sorted_wrt (<)
                  (map g_date (filter (\<lambda>g. g_country g = c)
                     (groupby_sum (fst (convert_dates infer strptime melted_df s))))))"
proof -
  from assms obtain df melted_df where df: "data s = Some df"
    and melted: "melt df id_vars (drop 4 (columns df)) = Inr melted_df"
    and cd: "cd = derived infer melted_df"
    by (rule process_data_Inr)
  let ?m = "fst (convert_dates infer strptime melted_df s)"
  have "cd = derive_metrics (groupby_sum ?m)"
    by (simp add: cd derived_def fst_convert_dates)
  moreover have sorted: "sorted_wrt (<) (map agg_key (groupby_sum ?m))"
    by (rule groupby_sum_sorted)
  moreover have "sorted_wrt (<) (map g_date (filter (\<lambda>g. g_country g = c) (groupby_sum ?m)))" for c
    using sorted unfolding agg_key_def by (rule one_country_sorted)
  ultimately show ?thesis using df melted by blast
qed

text \<open>The run on the example table is such a run.\<close>

theorem derivation_on_sorted_rows_witness:
  "snd (process_data ex_infer mdy_labels ex_loaded) = Inr ex_derived \<and>
   (\<exists>df melted_df.
      data ex_loaded = Some df \<and> melt df id_vars (drop 4 (columns df)) = Inr melted_df \<and>
      ex_derived = derive_metrics (groupby_sum (fst (convert_dates ex_infer mdy_labels melted_df ex_loaded))) \<and>
      sorted_wrt (<)
        (map agg_key (groupby_sum (fst (convert_dates ex_infer mdy_labels melted_df ex_loaded)))) \<and>
      (\<forall>c. sorted_wrt (<)
             (map g_date (filter (\<lambda>g. g_country g = c)
                (groupby_sum (fst (convert_dates ex_infer mdy_labels melted_df ex_loaded)))))))"
  using derivation_on_sorted_rows [OF ex_run] ex_run by (intro conjI)

section \<open>The derived metrics\<close>

text \<open>
  Claim C1, as the code has it. When process\_data succeeds with the table \<open>cd\<close>, the rows
  of every country stand in \<open>cd\<close> in strictly ascending date order, and along them
  \<open>daily_new\<close> is 0 on the first row and, on every later row, \<open>max 0\<close> of the float64
  difference of the two cumulative counts. That difference is
  \<open>confirmed[i] - confirmed[i-1]\<close> itself whenever the two counts and their difference are at
  most \<open>2^53\<close> in magnitude. \<open>daily_new\<close> is never negative, also where the cumulative
  count goes down.
\<close>

theorem daily_new_clamped_delta:
  assumes "snd (process_data infer strptime s) = Inr cd" and "i < length (rows_of c cd)"
  shows "sorted_wrt (<) (map date (rows_of c cd)) \<and>
         daily_new (rows_of c cd ! i) =
           (if i = 0 then 0
            else max 0 (float64 (float64 (confirmed (rows_of c cd ! i))
                          - float64 (confirmed (rows_of c cd ! (i - 1)))))) \<and>
         (0 < i \<and> \<bar>confirmed (rows_of c cd ! i)\<bar> \<le> 2 ^ 53 \<and>
          \<bar>confirmed (rows_of c cd ! (i - 1))\<bar> \<le> 2 ^ 53 \<and>
          \<bar>confirmed (rows_of c cd ! i) - confirmed (rows_of c cd ! (i - 1))\<bar> \<le> 2 ^ 53 \<longrightarrow>
            daily_new (rows_of c cd ! i) =
              max 0 (confirmed (rows_of c cd ! i) - confirmed (rows_of c cd ! (i - 1)))) \<and>
         0 \<le> daily_new (rows_of c cd ! i)"
proof -
  from assms(1) obtain df :: raw_table and melted_df where cd: "cd = derived infer melted_df"
    by (rule process_data_Inr)
  have sorted: "sorted_wrt (<) (map date (rows_of c cd))"
    unfolding cd by (rule rows_of_sorted) (rule derived_sorted)
  have delta: "daily_new (rows_of c cd ! i) =
      (if i = 0 then 0
       else max 0 (float64 (float64 (confirmed (rows_of c cd ! i))
                     - float64 (confirmed (rows_of c cd ! (i - 1))))))"
    using assms(2) unfolding cd derived_def by (rule daily_new_nth)
  have exact: "daily_new (rows_of c cd ! i) =
      max 0 (confirmed (rows_of c cd ! i) - confirmed (rows_of c cd ! (i - 1)))"
    if "0 < i" and "\<bar>confirmed (rows_of c cd ! i)\<bar> \<le> 2 ^ 53"
      and "\<bar>confirmed (rows_of c cd ! (i - 1))\<bar> \<le> 2 ^ 53"
      and "\<bar>confirmed (rows_of c cd ! i) - confirmed (rows_of c cd ! (i - 1))\<bar> \<le> 2 ^ 53"
    using that unfolding delta by (simp add: float64_difference_exact)
  have "0 \<le> daily_new (rows_of c cd ! i)"
    unfolding delta by simp
  with sorted delta exact show ?thesis by blast
qed

text \<open>
  On the example, the total of Australia goes from 5 down to 4 and the second
  \<open>daily_new\<close> is 0.
\<close>

theorem daily_new_clamped_delta_witness:
  "snd (process_data ex_infer mdy_labels ex_loaded) = Inr ex_derived \<and>
   1 < length (rows_of ''Australia'' ex_derived) \<and>
   \<bar>confirmed (rows_of ''Australia'' ex_derived ! 1)\<bar> \<le> 2 ^ 53 \<and>
   \<bar>confirmed (rows_of ''Australia'' ex_derived ! 0)\<bar> \<le> 2 ^ 53 \<and>
   \<bar>confirmed (rows_of ''Australia'' ex_derived ! 1) - confirmed (rows_of ''Australia'' ex_derived ! 0)\<bar>
     \<le> 2 ^ 53 \<and>
   confirmed (rows_of ''Australia'' ex_derived ! 1) < confirmed (rows_of ''Australia'' ex_derived ! 0) \<and>
   sorted_wrt (<) (map date (rows_of ''Australia'' ex_derived)) \<and>
   daily_new (rows_of ''Australia'' ex_derived ! 1) =
     max 0 (confirmed (rows_of ''Australia'' ex_derived ! 1) - confirmed (rows_of ''Australia'' ex_derived ! 0)) \<and>
   daily_new (rows_of ''Australia'' ex_derived ! 1) = 0 \<and>
   0 \<le> daily_new (rows_of ''Australia'' ex_derived ! 1)"
proof -
  have len: "1 < length (rows_of ''Australia'' ex_derived)"
    by (simp add: ex_rows_of_Australia)
  have small: "\<bar>confirmed (rows_of ''Australia'' ex_derived ! 1)\<bar> \<le> 2 ^ 53"
    "\<bar>confirmed (rows_of ''Australia'' ex_derived ! 0)\<bar> \<le> 2 ^ 53"
    "\<bar>confirmed (rows_of ''Australia'' ex_derived ! 1) - confirmed (rows_of ''Australia'' ex_derived ! 0)\<bar>
       \<le> 2 ^ 53"
    by (simp_all add: ex_rows_of_Australia)
  have down: "confirmed (rows_of ''Australia'' ex_derived ! 1) < confirmed (rows_of ''Australia'' ex_derived ! 0)"
    by (simp add: ex_rows_of_Australia)
  have zero: "daily_new (rows_of ''Australia'' ex_derived ! 1) = 0"
    by (simp add: ex_rows_of_Australia)
  from daily_new_clamped_delta [OF ex_run len] small
  have "sorted_wrt (<) (map date (rows_of ''Australia'' ex_derived))"
    and "daily_new (rows_of ''Australia'' ex_derived ! 1) =
      max 0 (confirmed (rows_of ''Australia'' ex_derived ! 1) - confirmed (rows_of ''Australia'' ex_derived ! 0))"
    and "0 \<le> daily_new (rows_of ''Australia'' ex_derived ! 1)"
    by simp_all
  with ex_run len small down zero show ?thesis by (intro conjI)
qed

text \<open>
  Against claim C1 as stated: the total of Chile goes from \<open>2^53\<close> to \<open>2^53 + 1\<close>, the
  difference is 1, and \<open>daily_new\<close> on the second row is 0: the larger count is not a
  double and is rounded to the smaller one before the subtraction.
\<close>

theorem daily_new_rounded_counterexample:
  "snd (process_data ex_infer mdy_labels ex_big) = Inr ex_big_derived \<and>
   daily_new (rows_of ''Chile'' ex_big_derived ! 1) = 0 \<and>
   max 0 (confirmed (rows_of ''Chile'' ex_big_derived ! 1) - confirmed (rows_of ''Chile'' ex_big_derived ! 0)) = 1"
  by code_simp



section \<open>The second date conversion\<close>

text \<open>
  Claim C4, run on the table with mixed date labels. The first conversion guesses the
  year-first format and leaves the label 1/23/20 as NaT; the second conversion is given the
  converted column, not the labels, so it counts the same NaT again, and the row of that
  date is missing from the derived table although the parser of the alternate format reads
  the label. Both counts are written to \<^verbatim>\<open>debug_info\<close> and the load does not fail.
\<close>

theorem process_data_retry_reads_converted_column:
  "mdy_labels ''1/23/20'' = Some 18284 \<and>
   snd (process_data mixed_infer mdy_labels ex_mixed) =
     Inr [\<lparr>country_region = ''Belgium'', date = 18283, confirmed = 2, daily_new = 0,
            seven_day_average = Some 0\<rparr>] \<and>
   debug_info (fst (process_data mixed_infer mdy_labels ex_mixed)) =
     [Note ''Starting data processing'',
      NoteCols ''Original data columns''
        [''Province/State'', ''Country/Region'', ''Lat'', ''Long'', ''2020-01-22'', ''1/23/20''],
      NoteNum ''Identified date columns'' 2,
      Note ''Melting dataframe...'',
      NoteShape ''Melted dataframe shape'' 2 6,
      NoteCols ''Melted dataframe columns''
        [''Province/State'', ''Country/Region'', ''Lat'', ''Long'', ''Date'', ''Confirmed''],
      Note ''Converting dates to datetime objects'',
      NoteNum ''NaT values after date conversion'' 1,
      Note ''Trying alternative date parsing'',
      NoteNum ''NaT values after alternative date parsing'' 1,
      Note ''Grouping by country and date'',
      NoteShape ''Country data shape after grouping'' 1 3,
      NoteCols ''Country data columns'' [''Country/Region'', ''Date'', ''Confirmed''],
      Note ''Calculating daily new cases'',
      Note ''Calculating 7-day moving average'',
      NoteShape ''Final country data shape'' 1 5,
      NoteCols ''Final country data columns''
        [''Country/Region'', ''Date'', ''Confirmed'', ''Daily_New'', ''Seven_Day_Average'']]"
  by code_simp

section \<open>Loading\<close>

text \<open>
  Claim C7, as the code has it. A table that lacks one of the four identification columns
  makes load\_data fail, with the exception the melt raises wrapped by load\_data, and the
  derived table of the processor stays as it was. A table that has the four columns and no
  date column is not refused: the load succeeds and stores the empty derived table.
\<close>

theorem load_data_structural_failure:
  "((\<exists>v \<in> set id_vars. v \<notin> set (columns df)) \<longrightarrow>
      (\<exists>e. snd (load_data (Inr df) infer strptime s) = Inl (LoadException e)) \<and>
      country_data (fst (load_data (Inr df) infer strptime s)) = country_data s) \<and>
   (set id_vars \<subseteq> set (columns df) \<and> drop 4 (columns df) = [] \<longrightarrow>
      snd (load_data (Inr df) infer strptime s) = Inr [] \<and>
      country_data (fst (load_data (Inr df) infer strptime s)) = Some [])"
proof (intro conjI impI)
  assume "\<exists>v \<in> set id_vars. v \<notin> set (columns df)"
  then obtain e where e: "melt df id_vars (drop 4 (columns df)) = Inl e"
    using melt_missing_id by blast
  show "\<exists>e. snd (load_data (Inr df) infer strptime s) = Inl (LoadException e)"
    by (simp add: snd_load_data e)
  show "country_data (fst (load_data (Inr df) infer strptime s)) = country_data s"
    by (simp add: country_data_load_data e)
next
  assume "set id_vars \<subseteq> set (columns df) \<and> drop 4 (columns df) = []"
  then have "set id_vars \<subseteq> set (columns df)" and "drop 4 (columns df) = []"
    by blast+
  then have m: "melt df id_vars (drop 4 (columns df)) = Inr []"
    by (rule melt_no_value_vars)
  show "snd (load_data (Inr df) infer strptime s) = Inr []"
    by (simp add: snd_load_data m derived_Nil)
  show "country_data (fst (load_data (Inr df) infer strptime s)) = Some []"
    by (simp add: country_data_load_data m derived_Nil)
qed

text \<open>
  Loading the table without \<^verbatim>\<open>Lat\<close> into the processor that holds the derived example
  fails and keeps that derived table; loading the table without date columns succeeds.
\<close>

theorem load_data_structural_failure_witness:
  "''Lat'' \<in> set id_vars \<and> ''Lat'' \<notin> set (columns ex_no_lat) \<and>
   snd (load_data (Inr ex_no_lat) ex_infer mdy_labels ex_derived_state) =
     Inl (LoadException (KeyError [''Lat''])) \<and>
   country_data (fst (load_data (Inr ex_no_lat) ex_infer mdy_labels ex_derived_state)) =
     Some ex_derived \<and>
   set id_vars \<subseteq> set (columns ex_no_dates) \<and> drop 4 (columns ex_no_dates) = [] \<and>
   snd (load_data (Inr ex_no_dates) ex_infer mdy_labels ex_derived_state) = Inr [] \<and>
   country_data (fst (load_data (Inr ex_no_dates) ex_infer mdy_labels ex_derived_state)) = Some []"
proof -
  have lat: "''Lat'' \<in> set id_vars" "''Lat'' \<notin> set (columns ex_no_lat)"
    by (simp_all add: id_vars_def ex_no_lat_def)
  then have missing: "\<exists>v \<in> set id_vars. v \<notin> set (columns ex_no_lat)"
    by blast
  have no_dates: "set id_vars \<subseteq> set (columns ex_no_dates) \<and> drop 4 (columns ex_no_dates) = []"
    by (simp add: id_vars_def ex_no_dates_def)
  have "melt ex_no_lat id_vars (drop 4 (columns ex_no_lat)) = Inl (KeyError [''Lat''])"
    by (simp add: melt_def id_vars_def ex_no_lat_def)
  then have err: "snd (load_data (Inr ex_no_lat) ex_infer mdy_labels ex_derived_state) =
      Inl (LoadException (KeyError [''Lat'']))"
    by (simp add: snd_load_data)
  have cd: "country_data ex_derived_state = Some ex_derived"
    by (simp add: ex_derived_state_def)
  from load_data_structural_failure [of ex_no_lat ex_infer mdy_labels ex_derived_state] missing cd
  have kept: "country_data (fst (load_data (Inr ex_no_lat) ex_infer mdy_labels ex_derived_state)) =
      Some ex_derived"
    by simp
  from load_data_structural_failure [of ex_no_dates ex_infer mdy_labels ex_derived_state] no_dates
  have "snd (load_data (Inr ex_no_dates) ex_infer mdy_labels ex_derived_state) = Inr [] \<and>
    country_data (fst (load_data (Inr ex_no_dates) ex_infer mdy_labels ex_derived_state)) = Some []"
    by blast
  with lat err kept no_dates show ?thesis by (intro conjI) simp_all
qed

text \<open>
  Against claim C7 as stated: the table with no date column, loaded into a fresh processor,
  does not fail, and the derived table changes from none to the empty table.
\<close>

theorem load_data_no_date_columns_counterexample:
  "drop 4 (columns ex_no_dates) = [] \<and>
   snd (load_data (Inr ex_no_dates) ex_infer mdy_labels init) = Inr [] \<and>
   country_data init = None \<and>
   country_data (fst (load_data (Inr ex_no_dates) ex_infer mdy_labels init)) = Some []"
proof -
  have "melt ex_no_dates id_vars (drop 4 (columns ex_no_dates)) = Inr []"
    by (simp add: melt_def id_vars_def ex_no_dates_def)
  then show ?thesis
    by (simp add: snd_load_data country_data_load_data derived_Nil)
       (simp add: ex_no_dates_def init_def)
qed

section \<open>The queries\<close>

text \<open>
  Claim C9. get\_country\_list returns a list in every case; its \<^verbatim>\<open>except\<close> clause turns
  every exception into the empty list. The list is strictly ascending, so sorted and free of
  duplicates; it is empty when no table is loaded; and when a table with a country column is
  loaded, its members are exactly the country names of the rows of that table.
\<close>

theorem get_country_list_sorted_distinct:
  "sorted_wrt (<) (snd (get_country_list s)) \<and>
   (data s = None \<longrightarrow> snd (get_country_list s) = []) \<and>
   (\<forall>df. data s = Some df \<longrightarrow>
      set (snd (get_country_list s)) =
        (if ''Country/Region'' \<in> set (columns df) then country ` set (rows df) else {}))"
  by (simp add: snd_get_country_list strict_sorted_iff split: option.split)

text \<open>
  On the example, where Australia stands in two rows, the list names it once, before
  Belgium; on a fresh processor the list is empty.
\<close>

theorem get_country_list_sorted_distinct_witness:
  "data init = None \<and> snd (get_country_list init) = [] \<and>
   data ex_loaded = Some ex_table \<and>
   snd (get_country_list ex_loaded) = [''Australia'', ''Belgium''] \<and>
   sorted_wrt (<) (snd (get_country_list ex_loaded)) \<and>
   set (snd (get_country_list ex_loaded)) = country ` set (rows ex_table)"
proof -
  have none: "data init = None" by (simp add: init_def)
  have some: "data ex_loaded = Some ex_table" by (simp add: ex_loaded_def)
  have col: "''Country/Region'' \<in> set (columns ex_table)" by (simp add: ex_table_def)
  have list: "snd (get_country_list ex_loaded) = [''Australia'', ''Belgium'']"
    by code_simp
  from get_country_list_sorted_distinct [of init] none
  have "snd (get_country_list init) = []" by blast
  moreover from get_country_list_sorted_distinct [of ex_loaded] some col
  have "sorted_wrt (<) (snd (get_country_list ex_loaded))"
    and "set (snd (get_country_list ex_loaded)) = country ` set (rows ex_table)"
    by simp_all
  ultimately show ?thesis using none some list by (intro conjI)
qed

text \<open>
  Claim C5. On a processor that holds a derived table \<open>cd\<close> (a table process\_data has
  returned), filter\_data with two dates returns, without raising, exactly the rows of
  \<open>cd\<close> whose country equals the argument and whose date lies between the two dates, both
  included, in strictly ascending date order; when no row matches, this is the empty table.
\<close>

theorem filter_data_inclusive_range:
  assumes "country_data s = Some cd" and "snd (process_data infer0 strptime0 s0) = Inr cd"
  shows "snd (filter_data infer strptime s c (Timestamp a) (Timestamp b)) =
           Inr (filter (\<lambda>r. country_region r = c \<and> a \<le> date r \<and> date r \<le> b) cd) \<and>
         sorted_wrt (<)
           (map date (filter (\<lambda>r. country_region r = c \<and> a \<le> date r \<and> date r \<le> b) cd)) \<and>
         ((\<forall>r \<in> set cd. \<not> (country_region r = c \<and> a \<le> date r \<and> date r \<le> b)) \<longrightarrow>
            snd (filter_data infer strptime s c (Timestamp a) (Timestamp b)) = Inr [])"
proof -
  let ?P = "\<lambda>r. country_region r = c \<and> a \<le> date r \<and> date r \<le> b"
  have res: "snd (filter_data infer strptime s c (Timestamp a) (Timestamp b)) = Inr (filter ?P cd)"
    using assms(1) by (rule filter_data_derived)
  from assms(2) obtain df :: raw_table and melted_df where cd: "cd = derived infer0 melted_df"
    by (rule process_data_Inr)
  have "sorted_wrt (<) (map date (rows_of c cd))"
    unfolding cd by (rule rows_of_sorted) (rule derived_sorted)
  then have "sorted_wrt (\<lambda>x y. date x < date y) (rows_of c cd)"
    by (simp add: sorted_wrt_map)
  then have "sorted_wrt (\<lambda>x y. date x < date y) (filter (\<lambda>r. a \<le> date r \<and> date r \<le> b) (rows_of c cd))"
    by (rule sorted_wrt_filter)
  moreover have "filter (\<lambda>r. a \<le> date r \<and> date r \<le> b) (rows_of c cd) = filter ?P cd"
    by (simp add: rows_of_def conj_commute conj_left_commute)
  ultimately have sorted: "sorted_wrt (<) (map date (filter ?P cd))"
    by (simp add: sorted_wrt_map)
  have "filter ?P cd = []" if "\<forall>r \<in> set cd. \<not> ?P r"
    using that by (simp add: filter_empty_conv)
  with res sorted show ?thesis by simp
qed

text \<open>
  On the example, the range from the second to the third day returns the second and third
  row of Australia, both boundary dates included; a country the table does not have returns
  the empty table.
\<close>

theorem filter_data_inclusive_range_witness:
  "country_data ex_derived_state = Some ex_derived \<and>
   snd (process_data ex_infer mdy_labels ex_loaded) = Inr ex_derived \<and>
   snd (filter_data ex_infer mdy_labels ex_derived_state ''Australia'' (Timestamp 18284) (Timestamp 18285)) =
     Inr [\<lparr>country_region = ''Australia'', date = 18284, confirmed = 4, daily_new = 0,
            seven_day_average = Some 0\<rparr>,
          \<lparr>country_region = ''Australia'', date = 18285, confirmed = 7, daily_new = 3,
            seven_day_average = Some 1\<rparr>] \<and>
   snd (filter_data ex_infer mdy_labels ex_derived_state ''Nonexististan'' (Timestamp 18284) (Timestamp 18285)) =
     Inr []"
proof -
  have cd: "country_data ex_derived_state = Some ex_derived"
    by (simp add: ex_derived_state_def)
  have "filter (\<lambda>r. country_region r = ''Australia'' \<and> 18284 \<le> date r \<and> date r \<le> 18285) ex_derived =
     [\<lparr>country_region = ''Australia'', date = 18284, confirmed = 4, daily_new = 0,
        seven_day_average = Some 0\<rparr>,
      \<lparr>country_region = ''Australia'', date = 18285, confirmed = 7, daily_new = 3,
        seven_day_average = Some 1\<rparr>]"
    by (simp add: ex_derived_def)
  moreover have "\<forall>r \<in> set ex_derived.
      \<not> (country_region r = ''Nonexististan'' \<and> 18284 \<le> date r \<and> date r \<le> 18285)"
    by (simp add: ex_derived_def)
  ultimately show ?thesis
    using filter_data_inclusive_range [OF cd ex_run, of ex_infer mdy_labels "''Australia''" 18284 18285]
      filter_data_inclusive_range [OF cd ex_run, of ex_infer mdy_labels "''Nonexististan''" 18284 18285]
      cd ex_run
    by simp
qed

text \<open>
  Claim C10. On a processor that holds a derived table, filter\_data for a country the
  table does not have returns the empty table whatever the start and end arguments are:
  it returns after the country match, before either argument is converted to a date, so
  also for arguments whose conversion would raise.
\<close>

theorem filter_data_unknown_country:
  assumes "country_data s = Some cd" and "c \<notin> country_region ` set cd"
  shows "snd (filter_data infer strptime s c start_date end_date) = Inr []"
proof -
  from assms(2) have "filter (\<lambda>r. country_region r = c) cd = []"
    by (auto simp: filter_empty_conv)
  with assms(1) show ?thesis
    by (simp add: snd_filter_data snd_filter_rows)
qed

text \<open>
  On the example, a string that is no date makes the query for Belgium raise, and leaves the
  query for an unknown country empty.
\<close>

theorem filter_data_unknown_country_witness:
  "country_data ex_derived_state = Some ex_derived \<and>
   ''Nonexististan'' \<notin> country_region ` set ex_derived \<and>
   to_datetime_scalar ex_infer (DateText ''not a date'') = Inl (ValueError ''not a date'') \<and>
   snd (filter_data ex_infer mdy_labels ex_derived_state ''Belgium''
          (DateText ''not a date'') (DateText ''not a date'')) = Inl (ValueError ''not a date'') \<and>
   snd (filter_data ex_infer mdy_labels ex_derived_state ''Nonexististan''
          (DateText ''not a date'') (DateText ''not a date'')) = Inr []"
proof -
  have cd: "country_data ex_derived_state = Some ex_derived"
    by (simp add: ex_derived_state_def)
  have unknown: "''Nonexististan'' \<notin> country_region ` set ex_derived"
    by (simp add: ex_derived_def)
  have bad: "to_datetime_scalar ex_infer (DateText ''not a date'') = Inl (ValueError ''not a date'')"
    by (simp add: to_datetime_scalar_def ex_infer_def mdy_labels_def)
  have "filter (\<lambda>r. country_region r = ''Belgium'') ex_derived \<noteq> []"
    by (simp add: ex_derived_def)
  then have "snd (filter_data ex_infer mdy_labels ex_derived_state ''Belgium''
      (DateText ''not a date'') (DateText ''not a date'')) = Inl (ValueError ''not a date'')"
    by (simp add: snd_filter_data snd_filter_rows cd bad)
  with filter_data_unknown_country [OF cd unknown] cd unknown bad show ?thesis
    by simp
qed

text \<open>
  Claim C6, as the code has it. filter\_data on a processor without a derived table fails
  with ValueError only when no table is loaded either. When a table is loaded, it calls
  process\_data itself: it raises what process\_data raises, and otherwise answers the query
  from the table process\_data has just derived and stored.
\<close>

theorem filter_data_before_derivation:
  assumes "country_data s = None"
  shows "snd (filter_data infer strptime s c start_date end_date) =
     (case data s of
        None \<Rightarrow> Inl (ValueError ''No data loaded. Please load data first.'')
      | Some df \<Rightarrow>
          (case process_data infer strptime s of
             (s', Inl e) \<Rightarrow> Inl e
           | (s', Inr cd) \<Rightarrow> snd (filter_data infer strptime s' c start_date end_date)))"
proof (cases "data s")
  case None
  with assms show ?thesis by (simp add: snd_filter_data)
next
  case (Some df)
  obtain s' r where run: "process_data infer strptime s = (s', r)"
    by (cases "process_data infer strptime s")
  have r: "snd (process_data infer strptime s) = r" using run by simp
  show ?thesis
  proof (cases r)
    case (Inl e)
    with assms Some run r show ?thesis by (simp add: snd_filter_data)
  next
    case (Inr cd)
    have "country_data s' = Some cd"
      using country_data_process_data [of infer strptime s] run Inr by simp
    then have "snd (filter_data infer strptime s' c start_date end_date) =
        snd (filter_rows infer cd s c start_date end_date)"
      by (simp add: snd_filter_data snd_filter_rows)
    with assms Some run r Inr show ?thesis by (simp add: snd_filter_data)
  qed
qed

text \<open>A processor that has loaded nothing: the query fails.\<close>

theorem filter_data_before_derivation_witness:
  "country_data init = None \<and>
   snd (filter_data ex_infer mdy_labels init ''Belgium'' (Timestamp 18283) (Timestamp 18284)) =
     Inl (ValueError ''No data loaded. Please load data first.'')"
  using filter_data_before_derivation [of init ex_infer mdy_labels "''Belgium''" "Timestamp 18283" "Timestamp 18284"]
  by (simp add: init_def)

text \<open>
  Against claim C6 as stated: a processor with the example table loaded and nothing derived
  answers the query with the two rows of Belgium in the range; it does not fail.
\<close>

theorem filter_data_rederives_counterexample:
  "data ex_loaded = Some ex_table \<and> country_data ex_loaded = None \<and>
   snd (filter_data ex_infer mdy_labels ex_loaded ''Belgium'' (Timestamp 18283) (Timestamp 18284)) =
     Inr [\<lparr>country_region = ''Belgium'', date = 18283, confirmed = 2, daily_new = 0,
            seven_day_average = Some 0\<rparr>,
          \<lparr>country_region = ''Belgium'', date = 18284, confirmed = 2, daily_new = 0,
            seven_day_average = Some 0\<rparr>]"
proof -
  have d: "data ex_loaded = Some ex_table" and cd: "country_data ex_loaded = None"
    by (simp_all add: ex_loaded_def)
  have "filter (\<lambda>r. country_region r = ''Belgium'') ex_derived = drop 3 ex_derived"
    by (simp add: ex_derived_def)
  then have "snd (filter_rows ex_infer ex_derived ex_loaded ''Belgium'' (Timestamp 18283) (Timestamp 18284)) =
     Inr [\<lparr>country_region = ''Belgium'', date = 18283, confirmed = 2, daily_new = 0,
            seven_day_average = Some 0\<rparr>,
          \<lparr>country_region = ''Belgium'', date = 18284, confirmed = 2, daily_new = 0,
            seven_day_average = Some 0\<rparr>]"
    by (simp add: snd_filter_rows to_datetime_scalar_def) (simp add: ex_derived_def)
  with d cd show ?thesis
    by (simp add: snd_filter_data ex_run)
qed

end
